theory Spec2Isabelle
  imports Main "HOL-Library.Sublist" "HOL-Library.Char_ord" "HOL-Library.List_Lexorder"
begin

section \<open>Python strings and paths as the source uses them\<close>

text \<open>
  A Python \<open>str\<close> is modelled as a \<open>string\<close>, a list of characters with code points
  below 256. \<open>is_space\<close> is \<open>str.isspace\<close> on that range: tab, line feed, vertical tab,
  form feed, carriage return, the separators 0x1C to 0x1F, space, 0x85 and 0xA0.
\<close>

definition is_space :: "char \<Rightarrow> bool" where
  "is_space c = (c \<in> set [CHR 0x09, CHR 0x0A, CHR 0x0B, CHR 0x0C, CHR 0x0D,
                            CHR 0x1C, CHR 0x1D, CHR 0x1E, CHR 0x1F, CHR 0x20, CHR 0x85, CHR 0xA0])"

definition strip :: "string \<Rightarrow> string" where
  \<comment> \<open>\<open>s.strip()\<close>\<close>
  "strip s = rev (dropWhile is_space (rev (dropWhile is_space s)))"

definition rstrip_char :: "char \<Rightarrow> string \<Rightarrow> string" where
  \<comment> \<open>\<open>s.rstrip(c)\<close> for a single character\<close>
  "rstrip_char c s = rev (dropWhile (\<lambda>x. x = c) (rev s))"

fun split_on :: "char \<Rightarrow> string \<Rightarrow> string list" where
  \<comment> \<open>\<open>s.split(sep)\<close> for a single character: empty fields are kept\<close>
  "split_on sep [] = [[]]"
| "split_on sep (c # cs) =
     (let r = split_on sep cs in if c = sep then [] # r else (c # hd r) # tl r)"

fun split_ws :: "string \<Rightarrow> string \<Rightarrow> string list" where
  "split_ws w [] = (if w = [] then [] else [w])"
| "split_ws w (c # cs) =
     (if is_space c then (if w = [] then split_ws [] cs else w # split_ws [] cs)
      else split_ws (w @ [c]) cs)"

definition py_split :: "string \<Rightarrow> string list" where
  \<comment> \<open>\<open>s.split()\<close>: the maximal runs of non-whitespace\<close>
  "py_split s = split_ws [] s"

definition is_linebreak :: "char \<Rightarrow> bool" where
  "is_linebreak c = (c \<in> set [CHR 0x0A, CHR 0x0B, CHR 0x0C, CHR 0x0D,
                                CHR 0x1C, CHR 0x1D, CHR 0x1E, CHR 0x85])"

fun splitlines_from :: "string \<Rightarrow> string \<Rightarrow> string list" where
  "splitlines_from w [] = (if w = [] then [] else [w])"
| "splitlines_from w (c # cs) =
     (if c = CHR 0x0D then
        (case cs of
           [] \<Rightarrow> [w]
         | d # ds \<Rightarrow> if d = CHR 0x0A then w # splitlines_from [] ds
                     else w # splitlines_from [] cs)
      else if is_linebreak c then w # splitlines_from [] cs
      else splitlines_from (w @ [c]) cs)"

definition splitlines :: "string \<Rightarrow> string list" where
  \<comment> \<open>\<open>s.splitlines()\<close>: no empty last line, CR LF is one boundary\<close>
  "splitlines s = splitlines_from [] s"

fun py_join :: "string \<Rightarrow> string list \<Rightarrow> string" where
  \<comment> \<open>\<open>sep.join(xs)\<close>\<close>
  "py_join sep [] = []"
| "py_join sep [x] = x"
| "py_join sep (x # y # ys) = x @ sep @ py_join sep (y # ys)"

definition startswith :: "string \<Rightarrow> string \<Rightarrow> bool" where
  \<comment> \<open>\<open>s.startswith(p)\<close>\<close>
  "startswith p s = (take (length p) s = p)"

definition endswith :: "string \<Rightarrow> string \<Rightarrow> bool" where
  "endswith p s = (length p \<le> length s \<and> drop (length s - length p) s = p)"

definition path_join :: "string \<Rightarrow> string \<Rightarrow> string" where
  \<comment> \<open>\<open>os.path.join(a, b)\<close> and \<open>posixpath.join(a, b)\<close> with two arguments\<close>
  "path_join a b =
     (if startswith ''/'' b then b
      else if a = [] \<or> endswith ''/'' a then a @ b
      else a @ ''/'' @ b)"

definition dirname :: "string \<Rightarrow> string" where
  \<comment> \<open>\<open>os.path.dirname(p)\<close>: the part up to the last slash, its trailing slashes
      removed unless it consists of slashes only\<close>
  "dirname p =
     (let head = rev (dropWhile (\<lambda>c. c \<noteq> CHR ''/'') (rev p))
      in if head \<noteq> [] \<and> head \<noteq> replicate (length head) (CHR ''/'')
         then rstrip_char (CHR ''/'') head else head)"

fun normpath_comps :: "bool \<Rightarrow> string list \<Rightarrow> string list \<Rightarrow> string list" where
  "normpath_comps initial new_comps [] = new_comps"
| "normpath_comps initial new_comps (cmp # comps) =
     (if cmp = [] \<or> cmp = ''.'' then normpath_comps initial new_comps comps
      else if cmp \<noteq> ''..'' \<or> (\<not> initial \<and> new_comps = [])
              \<or> (new_comps \<noteq> [] \<and> last new_comps = ''..'')
           then normpath_comps initial (new_comps @ [cmp]) comps
      else if new_comps \<noteq> [] then normpath_comps initial (butlast new_comps) comps
      else normpath_comps initial new_comps comps)"

definition normpath :: "string \<Rightarrow> string" where
  \<comment> \<open>\<open>os.path.normpath(path)\<close> on a POSIX host\<close>
  "normpath path =
     (if path = [] then ''.''
      else
        let initial_slashes =
              (if startswith ''/'' path
               then (if startswith ''//'' path \<and> \<not> startswith ''///'' path then 2 else 1)
               else (0::nat));
            comps = normpath_comps (initial_slashes \<noteq> 0) [] (split_on (CHR ''/'') path);
            joined = replicate initial_slashes (CHR ''/'') @ py_join ''/'' comps
        in if joined = [] then ''.'' else joined)"

definition shlex_safe :: "char \<Rightarrow> bool" where
  \<comment> \<open>the characters outside \<open>[^\w@%+=:,./-]\<close> with the ASCII flag\<close>
  "shlex_safe c =
     ((CHR ''a'' \<le> c \<and> c \<le> CHR ''z'') \<or> (CHR ''A'' \<le> c \<and> c \<le> CHR ''Z'')
      \<or> (CHR ''0'' \<le> c \<and> c \<le> CHR ''9'') \<or> c \<in> set ''_@%+=:,./-'')"

definition shlex_quote :: "string \<Rightarrow> string" where
  \<comment> \<open>\<open>shlex.quote(s)\<close>, which handle_job_submission applies to every value it
      puts on a command line\<close>
  "shlex_quote s =
     (if s = [] then [CHR 0x27, CHR 0x27]
      else if list_all shlex_safe s then s
      else [CHR 0x27]
           @ concat (map (\<lambda>c. if c = CHR 0x27 then [CHR 0x27, CHR 0x22, CHR 0x27, CHR 0x22, CHR 0x27]
                                else [c]) s)
           @ [CHR 0x27])"

definition is_digit :: "char \<Rightarrow> bool" where
  "is_digit c = (CHR ''0'' \<le> c \<and> c \<le> CHR ''9'')"

definition digit_val :: "char \<Rightarrow> int" where
  "digit_val c = int (of_char c) - 48"

fun digits_val :: "int \<Rightarrow> string \<Rightarrow> int option" where
  \<comment> \<open>the digits of an integer literal; single underscores between digits are allowed\<close>
  "digits_val acc [] = Some acc"
| "digits_val acc [c] = (if is_digit c then Some (acc * 10 + digit_val c) else None)"
| "digits_val acc (c # d # ds) =
     (if is_digit c then
        (if d = CHR ''_'' then (if ds = [] then None else digits_val (acc * 10 + digit_val c) ds)
         else digits_val (acc * 10 + digit_val c) (d # ds))
      else None)"

definition py_int :: "string \<Rightarrow> int option" where
  \<comment> \<open>\<open>int(s)\<close> on a stripped string; None is ValueError: a malformed literal, or one of
      more than 4300 digits, the default limit of the conversion from a string\<close>
  "py_int s =
     (case s of
        [] \<Rightarrow> None
      | c # cs \<Rightarrow>
          if int (length (filter is_digit s)) > 4300 then None
          else if c = CHR ''-'' then (if cs = [] then None else map_option uminus (digits_val 0 cs))
          else if c = CHR ''+'' then (if cs = [] then None else digits_val 0 cs)
          else digits_val 0 s)"

section \<open>The remote host and the session state (src/app.py, server)\<close>

text \<open>
  The remote host is a parameter of the model: \<open>ssh_client().exec_command(cmd)\<close> followed
  by the reads the source makes is one call of a function of type \<open>remote\<close>. It either
  raises (\<open>Inl\<close>: the call itself, a read or a strict decode failed) or gives the decoded
  standard output, the decoded standard error and the exit status. Where the source
  decodes with \<open>errors='replace'\<close> the text is the output after the replacement.
\<close>

datatype exn = SSHException string | ValueError string | AttributeError | TypeError
  | SendError string

record exec_result =
  stdout :: string
  stderr :: string
  exit_status :: int

type_synonym remote = "string \<Rightarrow> exn + exec_result"

datatype item_type = Directory | File

record entry =
  entry_name :: string
  entry_type :: item_type
  entry_size :: string
  entry_owner :: string
  entry_perms :: string

datatype note_type = Message | Warning | Error

text \<open>
  \<open>ui.notification_show(text, type=...)\<close>. \<open>NoteExn t prefix e\<close> is the notification
  \<open>f"{prefix}{str(e)}"\<close> of an exception handler.
\<close>

datatype notification = Note note_type string | NoteExn note_type string exn

text \<open>
  The reactive values of the server function, with the notifications shown so far and
  whether the editor modal is on screen. A job-queue row is a list of cells; the empty
  list of rows is the empty data frame.
\<close>

record session =
  ssh_client :: "nat option"
  current_dir :: string
  hpc_connected :: bool
  hpc_output_log :: string
  file_content :: string
  editor_visible :: bool
  selected_hpc_item :: "entry option"
  hpc_refresh_trigger :: int
  available_modules :: "string list"
  selected_modules :: "string list"
  job_queue_df :: "string list list"
  notifications :: "notification list"
  modal_shown :: bool

definition initial_session :: session where
  "initial_session =
     \<lparr>ssh_client = None, current_dir = ''~'', hpc_connected = False,
      hpc_output_log = ''Waiting for command output...'', file_content = [],
      editor_visible = False, selected_hpc_item = None, hpc_refresh_trigger = 0,
      available_modules = [], selected_modules = [], job_queue_df = [],
      notifications = [], modal_shown = False\<rparr>"

definition notify :: "notification \<Rightarrow> session \<Rightarrow> session" where
  "notify n s = s\<lparr>notifications := notifications s @ [n]\<rparr>"

definition exec_command :: "remote \<Rightarrow> session \<Rightarrow> string \<Rightarrow> exn + exec_result" where
  \<comment> \<open>\<open>ssh_client().exec_command(cmd)\<close>: with no client the attribute lookup raises\<close>
  "exec_command rem s cmd = (case ssh_client s of None \<Rightarrow> Inl AttributeError | Some c \<Rightarrow> rem cmd)"

subsection \<open>disconnect_hpc and the effects that follow a change\<close>

text \<open>
  \<open>closed\<close> is the outcome of \<open>client.close()\<close>: None, or the exception it raised. The
  \<open>finally\<close> block runs in both cases.
\<close>

definition disconnect_hpc :: "exn option \<Rightarrow> session \<Rightarrow> session" where
  "disconnect_hpc closed s =
     (case ssh_client s of
        Some client \<Rightarrow>
          (let s1 = (case closed of
                       None \<Rightarrow> notify (Note Message ''Disconnected from HPC'') s
                     | Some e \<Rightarrow> notify (NoteExn Error ''Error disconnecting: '' e) s)
           in s1\<lparr>ssh_client := None, hpc_connected := False, current_dir := ''~'',
                 hpc_refresh_trigger := hpc_refresh_trigger s1 + 1\<rparr>)
      | None \<Rightarrow> notify (Note Warning ''Not connected to HPC'') s)"

text \<open>
  \<open>reset_selection\<close> is the effect on \<open>current_dir\<close>. \<open>sent\<close> is the outcome of
  \<open>session.send_custom_message\<close>; when it raises, the handler prints and the three
  assignments below it are skipped.
\<close>

definition reset_selection :: "exn option \<Rightarrow> session \<Rightarrow> session" where
  "reset_selection sent s =
     (case sent of
        None \<Rightarrow> s\<lparr>selected_hpc_item := None, editor_visible := False, file_content := []\<rparr>
      | Some e \<Rightarrow> s)"

definition auto_close_editor :: "session \<Rightarrow> session" where
  \<comment> \<open>\<open>ui.modal_remove()\<close>\<close>
  "auto_close_editor s = s\<lparr>modal_shown := False\<rparr>"

text \<open>
  \<open>update_slurm_queue\<close> is the effect on \<open>hpc_connected\<close> (and on the refresh button).
  \<open>fetched\<close> stands for what its connected branch stores: the rows parsed from
  \<open>squeue\<close>, or the empty frame when the user name is empty, the query prints an error,
  prints nothing, or the parsing raises.
\<close>

definition update_slurm_queue :: "string list list \<Rightarrow> session \<Rightarrow> session" where
  "update_slurm_queue fetched s =
     (if \<not> hpc_connected s then s\<lparr>job_queue_df := []\<rparr> else s\<lparr>job_queue_df := fetched\<rparr>)"

text \<open>
  The reactive effects that a handler triggers. An effect declared with
  \<open>@reactive.event(v)\<close> runs, after the handler that assigned \<open>v\<close> has returned, when the
  assignment changed the value of \<open>v\<close>; \<open>old\<close> is the state before the handler.
\<close>

definition run_effects :: "exn option \<Rightarrow> string list list \<Rightarrow> session \<Rightarrow> session \<Rightarrow> session" where
  "run_effects sent fetched old s =
     (let s1 = (if current_dir s \<noteq> current_dir old
                then auto_close_editor (reset_selection sent s) else s)
      in if hpc_connected s1 \<noteq> hpc_connected old then update_slurm_queue fetched s1 else s1)"

subsection \<open>get_hpc_files\<close>

definition dotdot_entry :: entry where
  "dotdot_entry =
     \<lparr>entry_name = ''..'', entry_type = Directory, entry_size = [], entry_owner = [],
      entry_perms = ''drwxr-xr-x''\<rparr>"

text \<open>The body of the loop over the lines: None where nothing is appended.\<close>

definition parse_ls_line :: "string \<Rightarrow> entry option" where
  "parse_ls_line line =
     (let parts = py_split line in
      if length parts \<ge> 9 then
        (let name = py_join '' '' (drop 8 parts) in
         if startswith ''.'' name then None
         else Some \<lparr>entry_name = name,
                    entry_type = (if startswith ''d'' (parts ! 0) then Directory else File),
                    entry_size = parts ! 4, entry_owner = parts ! 2, entry_perms = parts ! 0\<rparr>)
      else None)"

definition ls_command :: "string \<Rightarrow> string" where
  "ls_command dir = ''ls -l '' @ dir @ '' | awk 'NR>1 {print $0}'' @ [CHR 0x27]"

text \<open>
  The value of the calculation: the rows of the data frame. The empty frame of the two
  failure paths (not connected, exception) is the empty list.
\<close>

definition get_hpc_files :: "remote \<Rightarrow> session \<Rightarrow> entry list" where
  "get_hpc_files rem s =
     (if \<not> hpc_connected s then []
      else case exec_command rem s (ls_command (current_dir s)) of
             Inl e \<Rightarrow> []
           | Inr r \<Rightarrow>
               (if current_dir s \<noteq> ''/'' then [dotdot_entry] else [])
               @ List.map_filter parse_ls_line (splitlines (stdout r)))"

subsection \<open>execute_command\<close>

definition console_command :: "string \<Rightarrow> string \<Rightarrow> string" where
  \<comment> \<open>\<open>full_cmd\<close>\<close>
  "console_command dir cmd = ''cd '' @ dir @ '' && bash -l -c '' @ [CHR 0x27] @ cmd @ [CHR 0x27]"

definition execute_command :: "remote \<Rightarrow> exn option \<Rightarrow> string \<Rightarrow> session \<Rightarrow> session" where
  "execute_command rem sent hpc_command s =
     (if \<not> hpc_connected s then notify (Note Warning ''Not connected to HPC'') s
      else
        let cmd = strip hpc_command in
        if cmd = [] then s
        else
          let full_cmd = console_command (current_dir s) cmd in
          case exec_command rem s full_cmd of
            Inl e \<Rightarrow> notify (NoteExn Error ''Execution failed: '' e) s
          | Inr r \<Rightarrow>
              (let new_content = ''$ '' @ full_cmd @ [CHR 0x0A] @ stdout r @ stderr r;
                   s1 = s\<lparr>hpc_output_log := hpc_output_log s @ [CHR 0x0A, CHR 0x0A] @ new_content\<rparr>
               in case sent of
                    Some e \<Rightarrow> notify (NoteExn Error ''Execution failed: '' e) s1
                  | None \<Rightarrow>
                      if stderr r \<noteq> [] then notify (Note Warning (''Command error: '' @ stderr r)) s1
                      else s1))"

subsection \<open>handle_file_content and handle_open_action\<close>

definition MAX_DISPLAY_SIZE :: nat where
  "MAX_DISPLAY_SIZE = 5000000"

definition MAX_LINES :: nat where
  "MAX_LINES = 50000"

definition TRUNCATE_MESSAGE :: string where
  "TRUNCATE_MESSAGE = [CHR 0x0A, CHR 0x0A] @ ''[TRUNCATED - FILE TOO LARGE TO DISPLAY FULLY]''"

definition stat_command :: "string \<Rightarrow> string" where
  "stat_command full_path = ''stat -c%s '' @ [CHR 0x27] @ full_path @ [CHR 0x27]"

definition head_command :: "string \<Rightarrow> string" where
  \<comment> \<open>\<open>f"head -n {MAX_LINES} '{full_path}' | head -c {MAX_DISPLAY_SIZE}"\<close>\<close>
  "head_command full_path =
     ''head -n 50000 '' @ [CHR 0x27] @ full_path @ [CHR 0x27] @ '' | head -c 5000000''"

definition cat_command :: "string \<Rightarrow> string" where
  "cat_command full_path = ''cat '' @ [CHR 0x27] @ full_path @ [CHR 0x27]"

definition handle_file_content :: "remote \<Rightarrow> session \<Rightarrow> entry \<Rightarrow> bool \<times> session" where
  "handle_file_content rem s selected_row =
     (let filename = entry_name selected_row;
          full_path = path_join (current_dir s) filename
      in case exec_command rem s (stat_command full_path) of
           Inl e \<Rightarrow> (False, notify (NoteExn Error ''File handling error: '' e) s)
         | Inr st \<Rightarrow>
             (case py_int (strip (stdout st)) of
                None \<Rightarrow> (False, notify (NoteExn Error ''File handling error: ''
                                           (ValueError (strip (stdout st)))) s)
              | Some file_size \<Rightarrow>
                  if file_size > int MAX_DISPLAY_SIZE then
                    (let s1 = notify (Note Warning
                                 ''Large file detected - showing first portion only'') s
                     in case exec_command rem s1 (head_command full_path) of
                          Inl e \<Rightarrow> (False, notify (NoteExn Error ''File handling error: '' e) s1)
                        | Inr r \<Rightarrow>
                            (let content = stdout r;
                                 content' = (if length content \<ge> MAX_DISPLAY_SIZE
                                             then take MAX_DISPLAY_SIZE content @ TRUNCATE_MESSAGE
                                             else content)
                             in (True, s1\<lparr>file_content := content'\<rparr>)))
                  else
                    (case exec_command rem s (cat_command full_path) of
                       Inl e \<Rightarrow> (False, notify (NoteExn Error ''File handling error: '' e) s)
                     | Inr r \<Rightarrow> (True, s\<lparr>file_content := stdout r\<rparr>))))"

definition open_target :: "string \<Rightarrow> string \<Rightarrow> string" where
  \<comment> \<open>\<open>new_path\<close>\<close>
  "open_target dir target_name =
     (let current_path = rstrip_char (CHR ''/'') dir
      in normpath (if target_name \<noteq> ''..'' then path_join current_path target_name
                   else dirname current_path))"

definition dir_check_command :: "string \<Rightarrow> string" where
  "dir_check_command new_path = ''[ -d '' @ [CHR 0x22] @ new_path @ [CHR 0x22] @ '' ]''"

definition handle_open_action :: "remote \<Rightarrow> session \<Rightarrow> session" where
  "handle_open_action rem s =
     (case selected_hpc_item s of
        None \<Rightarrow> s
      | Some item \<Rightarrow>
          if entry_type item = Directory then
            (let new_path = open_target (current_dir s) (entry_name item)
             in case exec_command rem s (dir_check_command new_path) of
                  Inl e \<Rightarrow> notify (NoteExn Error ''Open action failed: '' e) s
                | Inr r \<Rightarrow>
                    if exit_status r = 0
                    then s\<lparr>current_dir := new_path,
                           hpc_refresh_trigger := hpc_refresh_trigger s + 1\<rparr>
                    else notify (Note Warning (''Invalid directory: '' @ new_path)) s)
          else
            (case handle_file_content rem s item of
               (True, s1) \<Rightarrow> s1\<lparr>modal_shown := True\<rparr>
             | (False, s1) \<Rightarrow> s1))"

subsection \<open>delete_selected_item\<close>

definition delete_command :: "string \<Rightarrow> entry \<Rightarrow> string" where
  \<comment> \<open>\<open>cmd\<close>\<close>
  "delete_command dir item =
     (let full_path = path_join dir (entry_name item)
      in if entry_type item = Directory
         then ''rm -rf '' @ [CHR 0x27] @ full_path @ [CHR 0x27]
         else ''rm '' @ [CHR 0x27] @ full_path @ [CHR 0x27])"

definition delete_selected_item :: "remote \<Rightarrow> session \<Rightarrow> session" where
  "delete_selected_item rem s =
     (case selected_hpc_item s of
        None \<Rightarrow> s
      | Some item \<Rightarrow>
          (case exec_command rem s (delete_command (current_dir s) item) of
             Inl e \<Rightarrow> notify (NoteExn Error ''Deletion error: '' e) s
           | Inr r \<Rightarrow>
               if exit_status r = 0
               then (notify (Note Message (''Deleted '' @ entry_name item)) s)
                      \<lparr>hpc_refresh_trigger := hpc_refresh_trigger s + 1,
                       selected_hpc_item := None\<rparr>
               else notify (Note Error (''Deletion failed: '' @ stderr r)) s))"

subsection \<open>get_hpc_partitions\<close>

text \<open>
  The body of the inner loop, for one comma-separated part. The accumulator is the list
  \<open>partitions\<close> and the default found so far; the empty string is the unset default.
\<close>

definition partition_part :: "string list \<times> string \<Rightarrow> string \<Rightarrow> string list \<times> string" where
  "partition_part acc part =
     (let clean_part = strip part in
      if clean_part \<noteq> [] then
        (if CHR ''*'' \<in> set clean_part then
           (let starless = filter (\<lambda>c. c \<noteq> CHR ''*'') clean_part
            in (fst acc @ [starless], if snd acc = [] then starless else snd acc))
         else (fst acc @ [clean_part], snd acc))
      else acc)"

definition partition_line :: "string list \<times> string \<Rightarrow> string \<Rightarrow> string list \<times> string" where
  \<comment> \<open>\<open>for part in line.split(',')\<close>\<close>
  "partition_line acc line = foldl partition_part acc (split_on (CHR '','') line)"

definition parse_partitions :: "string \<Rightarrow> string list \<times> string" where
  \<comment> \<open>what the function does with \<open>raw_output\<close>\<close>
  "parse_partitions raw_output =
     (if raw_output \<noteq> [] then
        (let lines = split_on (CHR 0x0A) raw_output;
             acc = foldl partition_line ([], []) (tl lines);
             partitions = sort (remdups (fst acc));
             dflt = (if snd acc = [] \<and> partitions \<noteq> [] then hd partitions else snd acc)
         in (partitions, dflt))
      else ([], []))"

definition sinfo_command :: string where
  "sinfo_command = ''bash -l -c '' @ [CHR 0x27] @ ''sinfo --format=\"%P\"'' @ [CHR 0x27]"

definition get_hpc_partitions :: "remote \<Rightarrow> session \<Rightarrow> string list \<times> string" where
  "get_hpc_partitions rem s =
     (if ssh_client s = None \<or> \<not> hpc_connected s then ([], [])
      else case exec_command rem s sinfo_command of
             Inl e \<Rightarrow> ([], [])
           | Inr r \<Rightarrow> parse_partitions (strip (stdout r)))"

text \<open>
  The description of the parsing in words, to compare with the loop: the tokens are the
  comma-separated parts of the lines after the header; an entry is a non-empty stripped
  token; its name is the entry without stars; the partitions are the names, sorted and
  without duplicates; the default is the first non-empty name of a starred entry, or the
  first partition when there is none.
\<close>

definition partition_entries :: "string \<Rightarrow> string list" where
  "partition_entries raw_output =
     filter (\<lambda>t. t \<noteq> [])
       (map strip (concat (map (split_on (CHR '','')) (tl (split_on (CHR 0x0A) raw_output)))))"

definition partition_name :: "string \<Rightarrow> string" where
  "partition_name e = filter (\<lambda>c. c \<noteq> CHR ''*'') e"

definition described_partitions :: "string \<Rightarrow> string list" where
  "described_partitions raw_output = sort (remdups (map partition_name (partition_entries raw_output)))"

definition described_default :: "string \<Rightarrow> string" where
  "described_default raw_output =
     (case filter (\<lambda>n. n \<noteq> [])
             (map partition_name (filter (\<lambda>e. CHR ''*'' \<in> set e) (partition_entries raw_output))) of
        d # ds \<Rightarrow> d
      | [] \<Rightarrow> (case described_partitions raw_output of [] \<Rightarrow> [] | p # ps \<Rightarrow> p))"

definition first_default :: "string list \<Rightarrow> string" where
  \<comment> \<open>the first non-empty name of a starred entry, the empty string when there is none\<close>
  "first_default es =
     (case filter (\<lambda>n. n \<noteq> []) (map partition_name (filter (\<lambda>e. CHR ''*'' \<in> set e) es)) of
        d # ds \<Rightarrow> d | [] \<Rightarrow> [])"

section \<open>The credential store (src/auth/auth_db.py)\<close>










section \<open>Module selection (src/app.py, add_selected_module and the module_to_remove handler)\<close>

text \<open>
  The selection is the reactive value \<open>selected_modules\<close>, a Python list of strings that
  starts as \<open>[]\<close>. The selectize input delivers a string; the empty string (and None) is
  falsy in \<open>if module and ...\<close>, so it is modelled by the empty list.
  \<^verbatim>\<open>
    def add_selected_module():
        module = input.module_select()
        if module and module not in selected_modules.get():
            selected_modules.set([*selected_modules.get(), module])
  \<close>
\<close>

definition add_selected_module :: "string \<Rightarrow> string list \<Rightarrow> string list" where
  "add_selected_module module selected =
     (if module \<noteq> [] \<and> module \<notin> set selected then selected @ [module] else selected)"

text \<open>
  \<^verbatim>\<open>
    def _():
        module = input.module_to_remove()
        if module and module in selected_modules.get():
            selected_modules.set([m for m in selected_modules.get() if m != module])
  \<close>
\<close>

definition module_to_remove_handler :: "string \<Rightarrow> string list \<Rightarrow> string list" where
  "module_to_remove_handler module selected =
     (if module \<noteq> [] \<and> module \<in> set selected
      then filter (\<lambda>m. m \<noteq> module) selected else selected)"

datatype module_op = AddModule string | RemoveModule string

fun apply_module_op :: "string list \<Rightarrow> module_op \<Rightarrow> string list" where
  "apply_module_op selected (AddModule m) = add_selected_module m selected"
| "apply_module_op selected (RemoveModule m) = module_to_remove_handler m selected"

definition run_module_ops :: "module_op list \<Rightarrow> string list" where
  "run_module_ops ops = foldl apply_module_op [] ops"

section \<open>Sessions, hosts and inputs of the examples\<close>

definition sinfo_example :: string where
  \<comment> \<open>the output \<open>"partition\ndebug*,batch\ngpu"\<close>\<close>
  "sinfo_example = ''partition'' @ [CHR 0x0A] @ ''debug*,batch'' @ [CHR 0x0A] @ ''gpu''"

definition connected_session :: session where
  \<comment> \<open>a session right after a successful connect_hpc with home directory /home/u\<close>
  "connected_session = initial_session\<lparr>ssh_client := Some 0, hpc_connected := True,
                                        current_dir := ''/home/u''\<rparr>"

definition answering :: "string \<Rightarrow> exec_result \<Rightarrow> remote" where
  \<comment> \<open>a host that answers one command and fails every other\<close>
  "answering cmd r = (\<lambda>c. if c = cmd then Inr r else Inl (SSHException ''no answer''))"

definition ls_example :: string where
  \<comment> \<open>three rows of a long-format listing, the summary line already removed by awk\<close>
  "ls_example =
     ''drwxr-xr-x 2 u g 4096 Jan  1 12:00 data'' @ [CHR 0x0A]
     @ ''-rw-r--r-- 1 u g 12 Jan  1 12:00 .bashrc'' @ [CHR 0x0A]
     @ ''-rw-r--r-- 1 u g 220 Jan  1 12:00 my notes.txt'' @ [CHR 0x0A]"

definition ls_remote :: remote where
  \<comment> \<open>a host whose directories /home/u and / both list as \<open>ls_example\<close>\<close>
  "ls_remote = (\<lambda>c. if c = ls_command ''/home/u'' \<or> c = ls_command ''/''
                     then Inr \<lparr>stdout = ls_example, stderr = [], exit_status = 0\<rparr>
                     else Inl (SSHException ''no answer''))"

definition hidden_row :: string where
  "hidden_row = ''-rw-r--r-- 1 u g 12 Jan  1 12:00 .bashrc''"

definition data_entry :: entry where
  "data_entry =
     \<lparr>entry_name = ''data'', entry_type = Directory, entry_size = ''4096'',
      entry_owner = ''u'', entry_perms = ''drwxr-xr-x''\<rparr>"

definition selected_session :: session where
  \<comment> \<open>the connected session in /home/u with the directory row \<open>data\<close> selected\<close>
  "selected_session = connected_session\<lparr>selected_hpc_item := Some data_entry\<rparr>"

definition check_remote :: "int \<Rightarrow> remote" where
  \<comment> \<open>a host whose test \<open>[ -d "/home/u/data" ]\<close> exits with the given status\<close>
  "check_remote st =
     answering (dir_check_command ''/home/u/data'') \<lparr>stdout = [], stderr = [], exit_status = st\<rparr>"

definition rm_remote :: "int \<Rightarrow> remote" where
  \<comment> \<open>a host whose \<open>rm -rf '/home/u/data'\<close> exits with the given status\<close>
  "rm_remote st =
     answering (delete_command ''/home/u'' data_entry) \<lparr>stdout = [], stderr = [], exit_status = st\<rparr>"

definition busy_session :: session where
  \<comment> \<open>the connected session with a row selected, a module catalog loaded, one module
      chosen and one job in the queue snapshot\<close>
  "busy_session =
     selected_session\<lparr>available_modules := [''gcc/12.2'', ''python/3.9''],
                      selected_modules := [''gcc/12.2''],
                      job_queue_df := [[''4242'', ''align'', ''RUNNING'', ''0:10'']]\<rparr>"

subsection \<open>A remote host holding one text file\<close>

text \<open>
  What the three commands of handle_file_content print on a host where \<open>path\<close> is an
  ASCII file with the given content: \<open>stat -c%s\<close> prints its length, the \<open>head\<close>
  pipeline its first 50000 lines cut at 5000000 bytes, \<open>cat\<close> all of it.
\<close>

fun head_lines :: "nat \<Rightarrow> string \<Rightarrow> string" where
  "head_lines 0 s = []"
| "head_lines (Suc n) [] = []"
| "head_lines (Suc n) (c # cs) =
     (if c = CHR 0x0A then c # head_lines n cs else c # head_lines (Suc n) cs)"

function show_nat :: "nat \<Rightarrow> string" where
  "show_nat n =
     (if n < 10 then [''0123456789'' ! n]
      else show_nat (n div 10) @ [''0123456789'' ! (n mod 10)])"
  by pat_completeness auto
termination
  by (relation "measure id") auto

declare show_nat.simps [simp del]

definition file_host :: "string \<Rightarrow> string \<Rightarrow> remote" where
  "file_host path content =
     (\<lambda>c. if c = stat_command path
            then Inr \<lparr>stdout = show_nat (length content) @ [CHR 0x0A], stderr = [], exit_status = 0\<rparr>
          else if c = head_command path
            then Inr \<lparr>stdout = take 5000000 (head_lines 50000 content), stderr = [],
                      exit_status = 0\<rparr>
          else if c = cat_command path
            then Inr \<lparr>stdout = content, stderr = [], exit_status = 0\<rparr>
          else Inl (SSHException ''no answer''))"

definition big_file :: string where
  \<comment> \<open>50000 empty lines followed by 5000000 letters: 5050000 bytes\<close>
  "big_file = replicate 50000 (CHR 0x0A) @ replicate 5000000 (CHR ''a'')"

definition big_entry :: entry where
  "big_entry =
     \<lparr>entry_name = ''big.log'', entry_type = File, entry_size = ''5050000'',
      entry_owner = ''u'', entry_perms = ''-rw-r--r--''\<rparr>"

subsection \<open>How a POSIX shell splits the command lines built above\<close>

text \<open>
  The part of the shell's tokenisation that the command lines of this program exercise:
  blanks (space, tab) separate words; an unquoted semicolon or line feed and the
  operators \<open>&&\<close>, \<open>||\<close>, \<open>|\<close> and \<open>&\<close> end a simple command; a single or double quote
  makes everything up to the next quote of the same kind part of the current word (a
  quote that is never closed is a syntax error, None). Expansions inside double quotes,
  backslashes and redirections are left out; no command line evaluated below has them.
  The result is the list of simple commands in their order, each the list of its words.
\<close>

function sh_lex :: "string \<Rightarrow> bool \<Rightarrow> string \<Rightarrow> string list \<Rightarrow> string list list option" where
  "sh_lex [] inw w ws = Some [if inw then ws @ [w] else ws]"
| "sh_lex (c # cs) inw w ws =
     (if c = CHR 0x27 \<or> c = CHR 0x22 then
        (if c \<in> set cs
         then sh_lex (tl (dropWhile (\<lambda>x. x \<noteq> c) cs)) True (w @ takeWhile (\<lambda>x. x \<noteq> c) cs) ws
         else None)
      else if c = CHR '';'' \<or> c = CHR 0x0A then
        map_option (\<lambda>r. (if inw then ws @ [w] else ws) # r) (sh_lex cs False [] [])
      else if c = CHR ''&'' \<or> c = CHR ''|'' then
        map_option (\<lambda>r. (if inw then ws @ [w] else ws) # r)
          (sh_lex (if cs \<noteq> [] \<and> hd cs = c then tl cs else cs) False [] [])
      else if c = CHR '' '' \<or> c = CHR 0x09 then sh_lex cs False [] (if inw then ws @ [w] else ws)
      else sh_lex cs True (w @ [c]) ws)"
  by pat_completeness auto
termination
proof (relation "measure (\<lambda>(s, inw, w, ws). length s)")
  fix c :: char and cs :: string
  have "length (tl (dropWhile (\<lambda>x. x \<noteq> c) cs)) \<le> length (dropWhile (\<lambda>x. x \<noteq> c) cs)"
    by simp
  also have "\<dots> \<le> length cs" by (rule length_dropWhile_le)
  finally show "\<And>inw w ws. ((tl (dropWhile (\<lambda>x. x \<noteq> c) cs), True, w @ takeWhile (\<lambda>x. x \<noteq> c) cs, ws),
                   (c # cs, inw, w, ws)) \<in> measure (\<lambda>(s, inw, w, ws). length s)"
    by simp
qed auto

definition sh_commands :: "string \<Rightarrow> string list list option" where
  "sh_commands line = sh_lex line False [] []"

definition quoting_entry :: entry where
  \<comment> \<open>a file whose name holds a single quote and semicolons\<close>
  "quoting_entry =
     \<lparr>entry_name = ''x'; touch pwned; echo '' @ [CHR 0x27], entry_type = File, entry_size = ''0'',
      entry_owner = ''u'', entry_perms = ''-rw-r--r--''\<rparr>"

definition semicolon_entry :: entry where
  \<comment> \<open>the name of the spec's example\<close>
  "semicolon_entry =
     \<lparr>entry_name = ''a; rm -rf /'', entry_type = File, entry_size = ''0'',
      entry_owner = ''u'', entry_perms = ''-rw-r--r--''\<rparr>"



section \<open>Properties\<close>

subsection \<open>Module selection\<close>

lemma add_selected_module_distinct:
  "distinct selected \<Longrightarrow> distinct (add_selected_module m selected)"
  by (simp add: add_selected_module_def)

lemma module_to_remove_handler_distinct:
  "distinct selected \<Longrightarrow> distinct (module_to_remove_handler m selected)"
  by (simp add: module_to_remove_handler_def)

lemma apply_module_op_distinct:
  "distinct selected \<Longrightarrow> distinct (apply_module_op selected op)"
  by (cases op) (simp_all add: add_selected_module_distinct module_to_remove_handler_distinct)

lemma foldl_apply_module_op_distinct:
  "distinct selected \<Longrightarrow> distinct (foldl apply_module_op selected ops)"
  by (induction ops arbitrary: selected) (simp_all add: apply_module_op_distinct)

lemma run_module_ops_distinct: "distinct (run_module_ops ops)"
  by (simp add: run_module_ops_def foldl_apply_module_op_distinct)

lemma add_selected_module_nonempty:
  "[] \<notin> set selected \<Longrightarrow> [] \<notin> set (add_selected_module m selected)"
  by (auto simp: add_selected_module_def)

lemma module_to_remove_handler_nonempty:
  "[] \<notin> set selected \<Longrightarrow> [] \<notin> set (module_to_remove_handler m selected)"
  by (simp add: module_to_remove_handler_def)

lemma foldl_apply_module_op_nonempty:
  "[] \<notin> set selected \<Longrightarrow> [] \<notin> set (foldl apply_module_op selected ops)"
proof (induction ops arbitrary: selected)
  case Nil
  then show ?case by simp
next
  case (Cons op ops)
  have "[] \<notin> set (apply_module_op selected op)"
    using Cons.prems
    by (cases op) (simp_all add: add_selected_module_nonempty module_to_remove_handler_nonempty)
  then show ?case using Cons.IH by simp
qed

lemma run_module_ops_nonempty: "[] \<notin> set (run_module_ops ops)"
  by (simp add: run_module_ops_def foldl_apply_module_op_nonempty)

lemma filter_absent: "m \<notin> set selected \<Longrightarrow> filter (\<lambda>x. x \<noteq> m) selected = selected"
  by (induction selected) auto

lemma module_to_remove_handler_filter:
  "[] \<notin> set selected \<Longrightarrow>
   module_to_remove_handler m selected = filter (\<lambda>x. x \<noteq> m) selected"
  by (auto simp: module_to_remove_handler_def filter_absent)

text \<open>
  C9. For every sequence of add and remove operations that starts from the empty
  selection, the selection reached has no duplicates; adding a module that is already
  selected and removing a module that is not selected both leave it as it is; a removal
  keeps the other modules in their order (it is the selection with the occurrences of the
  removed module deleted, a subsequence); an addition keeps the selection as a prefix.
\<close>

theorem module_selection_idempotent_ordered:
  "distinct (run_module_ops ops)
   \<and> (m \<in> set (run_module_ops ops) \<longrightarrow>
        add_selected_module m (run_module_ops ops) = run_module_ops ops)
   \<and> (m \<notin> set (run_module_ops ops) \<longrightarrow>
        module_to_remove_handler m (run_module_ops ops) = run_module_ops ops)
   \<and> module_to_remove_handler m (run_module_ops ops) = filter (\<lambda>x. x \<noteq> m) (run_module_ops ops)
   \<and> subseq (module_to_remove_handler m (run_module_ops ops)) (run_module_ops ops)
   \<and> prefix (run_module_ops ops) (add_selected_module m (run_module_ops ops))"
proof -
  have "subseq (filter (\<lambda>x. x \<noteq> m) (run_module_ops ops)) (run_module_ops ops)"
    by (rule subseq_filter_left)
  then show ?thesis
    by (simp add: run_module_ops_distinct run_module_ops_nonempty
          module_to_remove_handler_filter filter_absent)
       (simp add: add_selected_module_def)
qed

theorem module_selection_idempotent_ordered_witness:
  "run_module_ops [AddModule ''gcc'', AddModule ''python/3.9'', AddModule ''gcc'',
                   RemoveModule ''gcc'', RemoveModule ''cuda''] = [''python/3.9'']
   \<and> ''python/3.9'' \<in> set (run_module_ops [AddModule ''gcc'', AddModule ''python/3.9'',
         AddModule ''gcc'', RemoveModule ''gcc'', RemoveModule ''cuda''])
   \<and> add_selected_module ''python/3.9'' [''python/3.9''] = [''python/3.9'']
   \<and> ''gcc'' \<notin> set (run_module_ops [AddModule ''gcc'', AddModule ''python/3.9'',
         AddModule ''gcc'', RemoveModule ''gcc'', RemoveModule ''cuda''])
   \<and> module_to_remove_handler ''gcc'' [''python/3.9''] = [''python/3.9'']"
proof -
  let ?ops = "[AddModule ''gcc'', AddModule ''python/3.9'', AddModule ''gcc'',
               RemoveModule ''gcc'', RemoveModule ''cuda'']"
  have run: "run_module_ops ?ops = [''python/3.9'']"
    by (simp add: run_module_ops_def add_selected_module_def module_to_remove_handler_def)
  have a: "''python/3.9'' \<in> set (run_module_ops ?ops)"
    by (simp add: run)
  have b: "''gcc'' \<notin> set (run_module_ops ?ops)"
    by (simp add: run)
  from module_selection_idempotent_ordered [of ?ops "''python/3.9''"] a
  have c: "add_selected_module ''python/3.9'' (run_module_ops ?ops) = run_module_ops ?ops"
    by blast
  from module_selection_idempotent_ordered [of ?ops "''gcc''"] b
  have d: "module_to_remove_handler ''gcc'' (run_module_ops ?ops) = run_module_ops ?ops"
    by blast
  from run a b c d show ?thesis by simp
qed

subsection \<open>Partition parsing\<close>

lemma partition_name_starless: "CHR ''*'' \<notin> set e \<Longrightarrow> partition_name e = e"
  by (auto simp: partition_name_def filter_id_conv)

lemma first_default_Cons:
  "first_default (e # es) =
     (if CHR ''*'' \<in> set e \<and> partition_name e \<noteq> [] then partition_name e else first_default es)"
  by (simp add: first_default_def)

lemma foldl_partition_part:
  "foldl partition_part acc ts =
     (fst acc @ map partition_name (filter (\<lambda>t. t \<noteq> []) (map strip ts)),
      if snd acc \<noteq> [] then snd acc else first_default (filter (\<lambda>t. t \<noteq> []) (map strip ts)))"
proof (induction ts arbitrary: acc)
  case Nil
  then show ?case by (cases acc) (simp add: first_default_def)
next
  case (Cons t ts)
  show ?case
  proof (cases "strip t = []")
    case True
    then have "partition_part acc t = acc" by (simp add: partition_part_def)
    then show ?thesis using True by (simp add: Cons.IH)
  next
    case False
    show ?thesis
    proof (cases "CHR ''*'' \<in> set (strip t)")
      case True
      then have "partition_part acc t =
          (fst acc @ [partition_name (strip t)],
           if snd acc = [] then partition_name (strip t) else snd acc)"
        using False by (simp add: partition_part_def partition_name_def Let_def)
      then show ?thesis using False True
        by (simp add: Cons.IH first_default_Cons)
    next
      case nostar: False
      then have "partition_part acc t = (fst acc @ [strip t], snd acc)"
        using False by (simp add: partition_part_def)
      then show ?thesis using False nostar
        by (simp add: Cons.IH first_default_Cons partition_name_starless)
    qed
  qed
qed

lemma foldl_partition_line:
  "foldl partition_line acc ls = foldl partition_part acc (concat (map (split_on (CHR '','')) ls))"
  by (induction ls arbitrary: acc) (simp_all add: partition_line_def)

lemma parse_partitions_described:
  "parse_partitions raw = (described_partitions raw, described_default raw)"
proof (cases "raw = []")
  case True
  then show ?thesis
    by (simp add: parse_partitions_def described_partitions_def described_default_def
        partition_entries_def)
next
  case False
  have acc: "foldl partition_line ([], []) (tl (split_on (CHR 0x0A) raw)) =
      (map partition_name (partition_entries raw), first_default (partition_entries raw))"
    by (simp add: foldl_partition_line foldl_partition_part partition_entries_def)
  have dd: "described_default raw =
      (if first_default (partition_entries raw) = [] \<and> described_partitions raw \<noteq> []
       then hd (described_partitions raw) else first_default (partition_entries raw))"
    by (auto simp: described_default_def first_default_def split: list.splits
        dest: filter_eq_ConsD)
  show ?thesis using False
    by (simp add: parse_partitions_def acc Let_def dd described_partitions_def)
qed

lemma star_free: "p \<in> set (described_partitions raw) \<Longrightarrow> CHR ''*'' \<notin> set p"
  by (auto simp: described_partitions_def partition_name_def)

lemma sinfo_example_parsed:
  "parse_partitions sinfo_example = ([''batch'', ''debug'', ''gpu''], ''debug'')"
  by code_simp

lemma sinfo_example_strip: "strip sinfo_example = sinfo_example"
  by code_simp

text \<open>
  C8. Partition parsing skips the header row, splits the comma-joined lists, strips the
  star, removes duplicates, sorts, and takes the first starred entry as the default: the
  result of the loop is the one described in words, it is sorted, without duplicates and
  without stars; on the output "partition\ndebug*,batch\ngpu" of a connected host the
  partitions are batch, debug and gpu, and debug is the default.
\<close>

theorem partition_parsing:
  "get_hpc_partitions
     (answering sinfo_command \<lparr>stdout = sinfo_example, stderr = [], exit_status = 0\<rparr>)
     connected_session = ([''batch'', ''debug'', ''gpu''], ''debug'')
   \<and> parse_partitions raw = (described_partitions raw, described_default raw)
   \<and> sorted (fst (parse_partitions raw)) \<and> distinct (fst (parse_partitions raw))
   \<and> (\<forall>p \<in> set (fst (parse_partitions raw)). CHR ''*'' \<notin> set p)"
proof -
  have ex: "get_hpc_partitions
     (answering sinfo_command \<lparr>stdout = sinfo_example, stderr = [], exit_status = 0\<rparr>)
     connected_session = ([''batch'', ''debug'', ''gpu''], ''debug'')"
    by (simp add: get_hpc_partitions_def exec_command_def connected_session_def
        initial_session_def answering_def sinfo_example_strip sinfo_example_parsed)
  have srt: "sorted (described_partitions raw) \<and> distinct (described_partitions raw)"
    by (simp add: described_partitions_def)
  show ?thesis
    using ex srt star_free [of _ raw] by (simp add: parse_partitions_described)
qed

theorem partition_parsing_witness:
  "''debug'' \<in> set (fst (parse_partitions sinfo_example)) \<and> CHR ''*'' \<notin> set ''debug''"
proof -
  have m: "''debug'' \<in> set (fst (parse_partitions sinfo_example))"
    by (simp add: sinfo_example_parsed)
  from partition_parsing [of sinfo_example] m show ?thesis by blast
qed

subsection \<open>Directory listing\<close>

lemma parse_ls_line_visible:
  "parse_ls_line line = Some e \<Longrightarrow> \<not> startswith ''.'' (entry_name e)"
  by (auto simp: parse_ls_line_def Let_def split: if_splits)

lemma parse_ls_line_hidden:
  "length (py_split line) \<ge> 9 \<Longrightarrow> startswith ''.'' (py_join '' '' (drop 8 (py_split line)))
   \<Longrightarrow> parse_ls_line line = None"
  by (simp add: parse_ls_line_def)

lemma map_filter_visible:
  "e \<in> set (List.map_filter parse_ls_line ls) \<Longrightarrow> \<not> startswith ''.'' (entry_name e)"
  by (auto simp: List.map_filter_def dest: parse_ls_line_visible)

lemma dotdot_hidden: "startswith ''.'' ''..''"
  by (simp add: startswith_def)

lemma map_filter_no_dotdot:
  "e \<in> set (List.map_filter parse_ls_line ls) \<Longrightarrow> entry_name e \<noteq> ''..''"
  using map_filter_visible dotdot_hidden by metis

lemma get_hpc_files_listing:
  assumes "hpc_connected s" and "exec_command rem s (ls_command (current_dir s)) = Inr r"
  shows "get_hpc_files rem s =
           (if current_dir s \<noteq> ''/'' then [dotdot_entry] else [])
           @ List.map_filter parse_ls_line (splitlines (stdout r))"
  using assms by (simp add: get_hpc_files_def)

text \<open>
  C4. For every listing that get_hpc_files produces (the session is connected and the
  remote listing command answers), an entry named ".." is in the listing if and only if
  the current directory is not "/"; when it is there it is the first entry, it is the
  synthetic one, and no later entry has that name.
\<close>

theorem dotdot_iff_not_root:
  assumes "hpc_connected s" and "exec_command rem s (ls_command (current_dir s)) = Inr r"
  shows "((\<exists>e \<in> set (get_hpc_files rem s). entry_name e = ''..'') \<longleftrightarrow> current_dir s \<noteq> ''/'')
       \<and> (current_dir s \<noteq> ''/'' \<longrightarrow>
            get_hpc_files rem s \<noteq> [] \<and> hd (get_hpc_files rem s) = dotdot_entry
            \<and> (\<forall>e \<in> set (tl (get_hpc_files rem s)). entry_name e \<noteq> ''..''))"
proof (cases "current_dir s = ''/''")
  case True
  then have "get_hpc_files rem s = List.map_filter parse_ls_line (splitlines (stdout r))"
    using get_hpc_files_listing [OF assms] by simp
  then show ?thesis using True map_filter_no_dotdot by auto
next
  case False
  then have l: "get_hpc_files rem s = dotdot_entry # List.map_filter parse_ls_line (splitlines (stdout r))"
    using get_hpc_files_listing [OF assms] by simp
  have "entry_name dotdot_entry = ''..''" by (simp add: dotdot_entry_def)
  then show ?thesis using False l map_filter_no_dotdot by auto
qed

text \<open>
  C5. Every row of the remote listing whose parsed name starts with "." is left out:
  the loop body appends nothing for it, and the only entry of a listing whose name
  starts with a dot is the synthetic ".." entry.
\<close>

theorem hidden_files_excluded:
  "(\<forall>e \<in> set (get_hpc_files rem s). startswith ''.'' (entry_name e) \<longrightarrow> e = dotdot_entry)
   \<and> (length (py_split line) \<ge> 9 \<and> startswith ''.'' (py_join '' '' (drop 8 (py_split line)))
        \<longrightarrow> parse_ls_line line = None)"
proof -
  have "\<forall>e \<in> set (get_hpc_files rem s). startswith ''.'' (entry_name e) \<longrightarrow> e = dotdot_entry"
    by (auto simp: get_hpc_files_def dest: map_filter_visible split: sum.splits if_splits)
  then show ?thesis using parse_ls_line_hidden by blast
qed

lemma ls_example_listing:
  "get_hpc_files ls_remote connected_session
   = [dotdot_entry,
      \<lparr>entry_name = ''data'', entry_type = Directory, entry_size = ''4096'',
       entry_owner = ''u'', entry_perms = ''drwxr-xr-x''\<rparr>,
      \<lparr>entry_name = ''my notes.txt'', entry_type = File, entry_size = ''220'',
       entry_owner = ''u'', entry_perms = ''-rw-r--r--''\<rparr>]"
  by code_simp

lemma ls_example_root_listing:
  "get_hpc_files ls_remote (connected_session\<lparr>current_dir := ''/''\<rparr>)
   = [\<lparr>entry_name = ''data'', entry_type = Directory, entry_size = ''4096'',
       entry_owner = ''u'', entry_perms = ''drwxr-xr-x''\<rparr>,
      \<lparr>entry_name = ''my notes.txt'', entry_type = File, entry_size = ''220'',
       entry_owner = ''u'', entry_perms = ''-rw-r--r--''\<rparr>]"
  by code_simp

theorem dotdot_iff_not_root_witness:
  "hpc_connected connected_session
   \<and> exec_command ls_remote connected_session (ls_command (current_dir connected_session))
       = Inr \<lparr>stdout = ls_example, stderr = [], exit_status = 0\<rparr>
   \<and> current_dir connected_session \<noteq> ''/''
   \<and> (\<exists>e \<in> set (get_hpc_files ls_remote connected_session). entry_name e = ''..'')
   \<and> hd (get_hpc_files ls_remote connected_session) = dotdot_entry
   \<and> ''..'' \<notin> entry_name ` set (tl (get_hpc_files ls_remote connected_session))
   \<and> \<not> (\<exists>e \<in> set (get_hpc_files ls_remote (connected_session\<lparr>current_dir := ''/''\<rparr>)).
            entry_name e = ''..'')"
proof -
  let ?r = "\<lparr>stdout = ls_example, stderr = [], exit_status = 0\<rparr>"
  let ?root = "connected_session\<lparr>current_dir := ''/''\<rparr>"
  have c: "hpc_connected connected_session" and c': "hpc_connected ?root"
    by (simp_all add: connected_session_def initial_session_def)
  have x: "exec_command ls_remote connected_session (ls_command (current_dir connected_session)) = Inr ?r"
    by (simp add: exec_command_def connected_session_def initial_session_def ls_remote_def)
  have x': "exec_command ls_remote ?root (ls_command (current_dir ?root)) = Inr ?r"
    by (simp add: exec_command_def connected_session_def initial_session_def ls_remote_def)
  have d: "current_dir connected_session \<noteq> ''/''" and d': "current_dir ?root = ''/''"
    by (simp_all add: connected_session_def initial_session_def)
  from dotdot_iff_not_root [OF c x] d
  have 1: "(\<exists>e \<in> set (get_hpc_files ls_remote connected_session). entry_name e = ''..'')
     \<and> hd (get_hpc_files ls_remote connected_session) = dotdot_entry
     \<and> ''..'' \<notin> entry_name ` set (tl (get_hpc_files ls_remote connected_session))"
    by (auto simp: image_iff)
  from dotdot_iff_not_root [OF c' x'] d'
  have 2: "\<not> (\<exists>e \<in> set (get_hpc_files ls_remote (connected_session\<lparr>current_dir := ''/''\<rparr>)).
            entry_name e = ''..'')"
    by simp
  from c x d 1 2 show ?thesis by simp
qed

theorem hidden_files_excluded_witness:
  "9 \<le> length (py_split hidden_row)
   \<and> startswith ''.'' (py_join '' '' (drop 8 (py_split hidden_row)))
   \<and> parse_ls_line hidden_row = None
   \<and> dotdot_entry \<in> set (get_hpc_files ls_remote connected_session)
   \<and> \<not> (\<exists>e \<in> set (get_hpc_files ls_remote connected_session). entry_name e = ''.bashrc'')"
proof -
  have a: "9 \<le> length (py_split hidden_row)" by code_simp
  have b: "startswith ''.'' (py_join '' '' (drop 8 (py_split hidden_row)))" by code_simp
  have m: "dotdot_entry \<in> set (get_hpc_files ls_remote connected_session)"
    by (simp add: ls_example_listing)
  have n: "startswith ''.'' ''.bashrc'' \<and> entry_name dotdot_entry \<noteq> ''.bashrc''"
    by (simp add: startswith_def dotdot_entry_def)
  from hidden_files_excluded [of ls_remote connected_session hidden_row] a b m n
  show ?thesis by metis
qed


subsection \<open>Opening a directory\<close>

lemma handle_file_content_current_dir:
  "current_dir (snd (handle_file_content rem s item)) = current_dir s"
  by (simp add: handle_file_content_def notify_def Let_def split: sum.splits option.splits)

lemma handle_open_action_file_current_dir:
  "selected_hpc_item s = Some item \<Longrightarrow> entry_type item \<noteq> Directory \<Longrightarrow>
   current_dir (handle_open_action rem s) = current_dir s"
proof -
  assume a: "selected_hpc_item s = Some item" "entry_type item \<noteq> Directory"
  obtain ok s1 where h: "handle_file_content rem s item = (ok, s1)" by (cases "handle_file_content rem s item")
  then have "current_dir s1 = current_dir s"
    using handle_file_content_current_dir [of rem s item] by simp
  then show ?thesis using a h by (cases ok) (simp_all add: handle_open_action_def)
qed

lemma handle_open_action_failed_check:
  assumes "selected_hpc_item s = Some item" and "entry_type item = Directory"
    and "exec_command rem s (dir_check_command (open_target (current_dir s) (entry_name item))) = Inr r"
    and "exit_status r \<noteq> 0"
  shows "handle_open_action rem s =
           notify (Note Warning (''Invalid directory: '' @ open_target (current_dir s) (entry_name item))) s"
  using assms by (simp add: handle_open_action_def Let_def)

lemma handle_open_action_changed:
  assumes "current_dir (handle_open_action rem s) \<noteq> current_dir s"
  shows "\<exists>item r. selected_hpc_item s = Some item \<and> entry_type item = Directory
           \<and> exec_command rem s (dir_check_command (open_target (current_dir s) (entry_name item))) = Inr r
           \<and> exit_status r = 0
           \<and> current_dir (handle_open_action rem s) = open_target (current_dir s) (entry_name item)"
proof (cases "selected_hpc_item s")
  case None
  then show ?thesis using assms by (simp add: handle_open_action_def)
next
  case (Some item)
  show ?thesis
  proof (cases "entry_type item = Directory")
    case False
    then show ?thesis using assms Some handle_open_action_file_current_dir by blast
  next
    case True
    then show ?thesis using assms Some
      by (auto simp: handle_open_action_def Let_def notify_def split: sum.splits if_splits)
  qed
qed

text \<open>
  C6. When the selected entry is a directory and the remote test of the resolved target
  exits with a non-zero status, handle_open_action leaves current_dir as it was and
  shows the warning "Invalid directory: <target>"; whenever handle_open_action changes
  current_dir, the selected entry was a directory and the test exited with status 0.
\<close>

theorem failed_check_keeps_directory:
  "(selected_hpc_item s = Some item \<and> entry_type item = Directory
      \<and> exec_command rem s (dir_check_command (open_target (current_dir s) (entry_name item))) = Inr r
      \<and> exit_status r \<noteq> 0
     \<longrightarrow> current_dir (handle_open_action rem s) = current_dir s
         \<and> notifications (handle_open_action rem s) =
             notifications s @ [Note Warning (''Invalid directory: ''
                                   @ open_target (current_dir s) (entry_name item))])
   \<and> (current_dir (handle_open_action rem s) \<noteq> current_dir s
     \<longrightarrow> (\<exists>it res. selected_hpc_item s = Some it \<and> entry_type it = Directory
            \<and> exec_command rem s (dir_check_command (open_target (current_dir s) (entry_name it))) = Inr res
            \<and> exit_status res = 0))"
proof -
  have "selected_hpc_item s = Some item \<and> entry_type item = Directory
      \<and> exec_command rem s (dir_check_command (open_target (current_dir s) (entry_name item))) = Inr r
      \<and> exit_status r \<noteq> 0
     \<longrightarrow> current_dir (handle_open_action rem s) = current_dir s
         \<and> notifications (handle_open_action rem s) =
             notifications s @ [Note Warning (''Invalid directory: ''
                                   @ open_target (current_dir s) (entry_name item))]"
    by (auto simp: handle_open_action_failed_check notify_def)
  moreover have "current_dir (handle_open_action rem s) \<noteq> current_dir s
     \<longrightarrow> (\<exists>it res. selected_hpc_item s = Some it \<and> entry_type it = Directory
            \<and> exec_command rem s (dir_check_command (open_target (current_dir s) (entry_name it))) = Inr res
            \<and> exit_status res = 0)"
    using handle_open_action_changed by blast
  ultimately show ?thesis by blast
qed

lemma open_target_data: "open_target ''/home/u'' ''data'' = ''/home/u/data''"
  by code_simp

lemma selected_session_fields:
  "selected_hpc_item selected_session = Some data_entry" "current_dir selected_session = ''/home/u''"
  "ssh_client selected_session = Some 0" "hpc_connected selected_session"
  "notifications selected_session = []"
  by (simp_all add: selected_session_def connected_session_def initial_session_def)

lemma data_entry_fields: "entry_type data_entry = Directory" "entry_name data_entry = ''data''"
  by (simp_all add: data_entry_def)

lemma check_remote_answer:
  "exec_command (check_remote st) selected_session
     (dir_check_command (open_target (current_dir selected_session) (entry_name data_entry)))
   = Inr \<lparr>stdout = [], stderr = [], exit_status = st\<rparr>"
  by (simp add: exec_command_def selected_session_fields data_entry_fields open_target_data
      check_remote_def answering_def)

lemma open_succeeds:
  "current_dir (handle_open_action (check_remote 0) selected_session) = ''/home/u/data''"
  using check_remote_answer [of 0]
  by (simp add: handle_open_action_def selected_session_fields data_entry_fields open_target_data)

theorem failed_check_keeps_directory_witness:
  "selected_hpc_item selected_session = Some data_entry \<and> entry_type data_entry = Directory
   \<and> exec_command (check_remote 1) selected_session
        (dir_check_command (open_target (current_dir selected_session) (entry_name data_entry)))
       = Inr \<lparr>stdout = [], stderr = [], exit_status = 1\<rparr>
   \<and> current_dir (handle_open_action (check_remote 1) selected_session) = ''/home/u''
   \<and> notifications (handle_open_action (check_remote 1) selected_session)
       = [Note Warning ''Invalid directory: /home/u/data'']
   \<and> current_dir (handle_open_action (check_remote 0) selected_session) \<noteq> current_dir selected_session
   \<and> (\<exists>it res. selected_hpc_item selected_session = Some it \<and> entry_type it = Directory
         \<and> exec_command (check_remote 0) selected_session
              (dir_check_command (open_target (current_dir selected_session) (entry_name it))) = Inr res
         \<and> exit_status res = 0)"
proof -
  let ?r = "\<lparr>stdout = [], stderr = [], exit_status = 1\<rparr>"
  have h: "selected_hpc_item selected_session = Some data_entry \<and> entry_type data_entry = Directory
     \<and> exec_command (check_remote 1) selected_session
        (dir_check_command (open_target (current_dir selected_session) (entry_name data_entry))) = Inr ?r
     \<and> exit_status ?r \<noteq> 0"
    using check_remote_answer [of 1] by (simp add: selected_session_fields data_entry_fields)
  have ch: "current_dir (handle_open_action (check_remote 0) selected_session) \<noteq> current_dir selected_session"
    by (simp add: open_succeeds selected_session_fields)
  from failed_check_keeps_directory [of selected_session data_entry "check_remote 1" ?r] h
  have 1: "current_dir (handle_open_action (check_remote 1) selected_session) = ''/home/u''
     \<and> notifications (handle_open_action (check_remote 1) selected_session)
       = [Note Warning ''Invalid directory: /home/u/data'']"
    by (simp add: selected_session_fields data_entry_fields open_target_data)
  from failed_check_keeps_directory [of selected_session data_entry "check_remote 0" ?r] ch
  have 2: "\<exists>it res. selected_hpc_item selected_session = Some it \<and> entry_type it = Directory
         \<and> exec_command (check_remote 0) selected_session
              (dir_check_command (open_target (current_dir selected_session) (entry_name it))) = Inr res
         \<and> exit_status res = 0"
    by blast
  from h 1 2 ch show ?thesis by blast
qed


subsection \<open>Clearing the selection\<close>

lemma delete_selected_item_success:
  assumes "selected_hpc_item s = Some item"
    and "exec_command rem s (delete_command (current_dir s) item) = Inr r"
    and "exit_status r = 0"
  shows "delete_selected_item rem s =
           (notify (Note Message (''Deleted '' @ entry_name item)) s)
             \<lparr>hpc_refresh_trigger := hpc_refresh_trigger s + 1, selected_hpc_item := None\<rparr>"
  using assms by (simp add: delete_selected_item_def)

lemma run_effects_changed_dir:
  "current_dir s' \<noteq> current_dir s \<Longrightarrow>
   selected_hpc_item (run_effects None fetched s s') = None"
  by (simp add: run_effects_def reset_selection_def auto_close_editor_def
      update_slurm_queue_def Let_def)

lemma run_effects_send_raised:
  "selected_hpc_item (run_effects (Some e) fetched s s') = selected_hpc_item s'"
  by (simp add: run_effects_def reset_selection_def auto_close_editor_def
      update_slurm_queue_def Let_def)

lemma handle_open_action_keeps_selection:
  assumes "current_dir (handle_open_action rem s) \<noteq> current_dir s"
  shows "selected_hpc_item (handle_open_action rem s) = selected_hpc_item s"
proof -
  from handle_open_action_changed [OF assms]
  obtain item r where "selected_hpc_item s = Some item" and "entry_type item = Directory"
    and "exec_command rem s (dir_check_command (open_target (current_dir s) (entry_name item))) = Inr r"
    and "exit_status r = 0"
    by blast
  then show ?thesis by (simp add: handle_open_action_def Let_def)
qed

lemma rm_remote_answer:
  "exec_command (rm_remote st) selected_session (delete_command (current_dir selected_session) data_entry)
   = Inr \<lparr>stdout = [], stderr = [], exit_status = st\<rparr>"
  by (simp add: exec_command_def selected_session_def connected_session_def initial_session_def
      rm_remote_def answering_def)

lemma open_succeeds_selection:
  "selected_hpc_item (handle_open_action (check_remote 0) selected_session) = Some data_entry"
  using check_remote_answer [of 0]
  by (simp add: handle_open_action_def selected_session_fields data_entry_fields open_target_data)

text \<open>
  The claim C7 as stated fails. In the connected session with the directory row
  \<open>data\<close> selected, a successful navigation changes the directory from /home/u to
  /home/u/data and the row is still the selected item when handle_open_action returns:
  the handler does not clear the selection with the directory change. When the message
  that reset_selection sends to the data grid raises, the row is still the selected item
  after the effects as well.
\<close>

theorem navigation_keeps_selection:
  "current_dir selected_session = ''/home/u''
   \<and> current_dir (handle_open_action (check_remote 0) selected_session) = ''/home/u/data''
   \<and> selected_hpc_item (handle_open_action (check_remote 0) selected_session) = Some data_entry
   \<and> selected_hpc_item
        (run_effects (Some (SendError ''connection closed'')) [] selected_session
           (handle_open_action (check_remote 0) selected_session))
       = Some data_entry"
  by (simp add: selected_session_fields open_succeeds open_succeeds_selection
      run_effects_send_raised)

text \<open>
  C7, as the code has it. After a successful delete (the remote rm exits with status 0)
  the selected item is None when delete_selected_item returns, and it stays None through
  the effects that follow, whether or not their message to the data grid raises. A
  successful navigation (handle_open_action changed current_dir) leaves the selected
  item as it was when the handler returns; the selected item is None after the effects
  triggered by the change have run with the message of reset_selection to the data grid
  sent without an exception.
\<close>

theorem selection_cleared:
  "(selected_hpc_item s = Some item
      \<and> exec_command rem s (delete_command (current_dir s) item) = Inr r \<and> exit_status r = 0
     \<longrightarrow> selected_hpc_item (delete_selected_item rem s) = None
         \<and> selected_hpc_item (run_effects sent fetched s (delete_selected_item rem s)) = None)
   \<and> (current_dir (handle_open_action rem s) \<noteq> current_dir s
     \<longrightarrow> selected_hpc_item (handle_open_action rem s) = selected_hpc_item s
         \<and> selected_hpc_item (run_effects None fetched s (handle_open_action rem s)) = None)"
proof -
  have "selected_hpc_item s = Some item
      \<and> exec_command rem s (delete_command (current_dir s) item) = Inr r \<and> exit_status r = 0
     \<longrightarrow> selected_hpc_item (delete_selected_item rem s) = None
         \<and> selected_hpc_item (run_effects sent fetched s (delete_selected_item rem s)) = None"
    by (auto simp: delete_selected_item_success notify_def run_effects_def)
  then show ?thesis
    using run_effects_changed_dir handle_open_action_keeps_selection by blast
qed

theorem selection_cleared_witness:
  "selected_hpc_item selected_session = Some data_entry
   \<and> exec_command (rm_remote 0) selected_session
         (delete_command (current_dir selected_session) data_entry)
       = Inr \<lparr>stdout = [], stderr = [], exit_status = 0\<rparr>
   \<and> selected_hpc_item (delete_selected_item (rm_remote 0) selected_session) = None
   \<and> selected_hpc_item
        (run_effects (Some (SendError ''connection closed'')) [] selected_session
           (delete_selected_item (rm_remote 0) selected_session)) = None
   \<and> current_dir (handle_open_action (check_remote 0) selected_session) \<noteq> current_dir selected_session
   \<and> selected_hpc_item (handle_open_action (check_remote 0) selected_session)
       = selected_hpc_item selected_session
   \<and> selected_hpc_item
        (run_effects None [] selected_session (handle_open_action (check_remote 0) selected_session))
       = None"
proof -
  let ?r = "\<lparr>stdout = [], stderr = [], exit_status = 0\<rparr>"
  have h: "selected_hpc_item selected_session = Some data_entry
     \<and> exec_command (rm_remote 0) selected_session
         (delete_command (current_dir selected_session) data_entry) = Inr ?r
     \<and> exit_status ?r = 0"
    using rm_remote_answer [of 0] by (simp add: selected_session_fields)
  have ch: "current_dir (handle_open_action (check_remote 0) selected_session) \<noteq> current_dir selected_session"
    by (simp add: open_succeeds selected_session_fields)
  from selection_cleared [of selected_session data_entry "rm_remote 0" ?r
      "Some (SendError ''connection closed'')" "[]"] h
  have 1: "selected_hpc_item (delete_selected_item (rm_remote 0) selected_session) = None
     \<and> selected_hpc_item
        (run_effects (Some (SendError ''connection closed'')) [] selected_session
           (delete_selected_item (rm_remote 0) selected_session)) = None"
    by blast
  from selection_cleared [of selected_session data_entry "check_remote 0" ?r None "[]"] ch
  have 2: "selected_hpc_item (handle_open_action (check_remote 0) selected_session)
       = selected_hpc_item selected_session
     \<and> selected_hpc_item
        (run_effects None [] selected_session (handle_open_action (check_remote 0) selected_session)) = None"
    by blast
  from h 1 2 ch show ?thesis by blast
qed

subsection \<open>Disconnecting\<close>

lemma disconnect_connected:
  assumes "ssh_client s = Some c"
  shows "disconnect_hpc closed s =
           (case closed of
              None \<Rightarrow> notify (Note Message ''Disconnected from HPC'') s
            | Some e \<Rightarrow> notify (NoteExn Error ''Error disconnecting: '' e) s)
           \<lparr>ssh_client := None, hpc_connected := False, current_dir := ''~'',
            hpc_refresh_trigger := hpc_refresh_trigger s + 1\<rparr>"
  using assms by (cases closed) (simp_all add: disconnect_hpc_def notify_def)

lemma disconnect_not_connected:
  "ssh_client s = None \<Longrightarrow>
   disconnect_hpc closed s = s\<lparr>notifications := notifications s @ [Note Warning ''Not connected to HPC'']\<rparr>"
  by (simp add: disconnect_hpc_def notify_def)

lemma run_effects_unchanged:
  "current_dir s' = current_dir s \<Longrightarrow> hpc_connected s' = hpc_connected s \<Longrightarrow>
   run_effects sent fetched s s' = s'"
  by (simp add: run_effects_def)

lemma disconnect_effects_fields:
  assumes "ssh_client s = Some c" and "hpc_connected s"
  shows "ssh_client (run_effects sent fetched s (disconnect_hpc closed s)) = None"
    and "\<not> hpc_connected (run_effects sent fetched s (disconnect_hpc closed s))"
    and "current_dir (run_effects sent fetched s (disconnect_hpc closed s)) = ''~''"
    and "hpc_refresh_trigger (run_effects sent fetched s (disconnect_hpc closed s))
           = hpc_refresh_trigger s + 1"
    and "job_queue_df (run_effects sent fetched s (disconnect_hpc closed s)) = []"
    and "available_modules (run_effects sent fetched s (disconnect_hpc closed s))
           = available_modules s"
    and "selected_modules (run_effects sent fetched s (disconnect_hpc closed s))
           = selected_modules s"
  using assms
  by (cases closed; cases sent;
      simp add: disconnect_connected notify_def run_effects_def reset_selection_def
        auto_close_editor_def update_slurm_queue_def Let_def)+

lemma disconnect_effects_selection:
  assumes "ssh_client s = Some c" and "current_dir s \<noteq> ''~''"
  shows "selected_hpc_item (run_effects None fetched s (disconnect_hpc closed s)) = None"
  using assms
  by (cases closed)
     (simp_all add: disconnect_connected notify_def run_effects_def reset_selection_def
        auto_close_editor_def update_slurm_queue_def Let_def)

text \<open>
  C2, as the code has it. Disconnecting a session that holds a client and is connected,
  with the effects that the changes trigger, leaves the session without a client, not
  connected and in the directory "~", with the refresh trigger increased by one and an
  empty job-queue snapshot, and with the module catalog and the chosen modules as they
  were, whether or not the message of reset_selection to the data grid raises; when the
  directory was not "~" already and that message is sent without an exception, no item
  is selected afterwards. Disconnecting a session that has no client only adds the
  warning "Not connected to HPC".
\<close>

theorem disconnect_resets:
  "(ssh_client s = Some c \<and> hpc_connected s
     \<longrightarrow> ssh_client (run_effects sent fetched s (disconnect_hpc closed s)) = None
         \<and> \<not> hpc_connected (run_effects sent fetched s (disconnect_hpc closed s))
         \<and> current_dir (run_effects sent fetched s (disconnect_hpc closed s)) = ''~''
         \<and> hpc_refresh_trigger (run_effects sent fetched s (disconnect_hpc closed s))
             = hpc_refresh_trigger s + 1
         \<and> job_queue_df (run_effects sent fetched s (disconnect_hpc closed s)) = []
         \<and> available_modules (run_effects sent fetched s (disconnect_hpc closed s))
             = available_modules s
         \<and> selected_modules (run_effects sent fetched s (disconnect_hpc closed s))
             = selected_modules s
         \<and> (current_dir s \<noteq> ''~'' \<longrightarrow>
              selected_hpc_item (run_effects None fetched s (disconnect_hpc closed s)) = None))
   \<and> (ssh_client s = None
     \<longrightarrow> run_effects sent fetched s (disconnect_hpc closed s)
           = s\<lparr>notifications := notifications s @ [Note Warning ''Not connected to HPC'']\<rparr>)"
proof -
  have b: "ssh_client s = None
     \<longrightarrow> run_effects sent fetched s (disconnect_hpc closed s)
           = s\<lparr>notifications := notifications s @ [Note Warning ''Not connected to HPC'']\<rparr>"
    by (auto simp: disconnect_not_connected run_effects_unchanged)
  show ?thesis
    using b disconnect_effects_fields [of s c sent fetched closed]
      disconnect_effects_selection [of s c fetched closed]
    by blast
qed

lemma busy_session_fields:
  "ssh_client busy_session = Some 0" "hpc_connected busy_session"
  "current_dir busy_session = ''/home/u''"
  "available_modules busy_session = [''gcc/12.2'', ''python/3.9'']"
  "selected_modules busy_session = [''gcc/12.2'']"
  "hpc_refresh_trigger busy_session = 0"
  "ssh_client initial_session = None" "notifications initial_session = []"
  by (simp_all add: busy_session_def selected_session_def connected_session_def initial_session_def)

text \<open>
  The claim C2 as stated fails: after disconnecting the connected session
  \<open>busy_session\<close>, whose module catalog holds two modules, the session is disconnected
  and in "~", and the module catalog still holds the two modules.
\<close>

theorem disconnect_keeps_module_catalog:
  "ssh_client busy_session = Some 0 \<and> hpc_connected busy_session
   \<and> \<not> hpc_connected (run_effects None [] busy_session (disconnect_hpc None busy_session))
   \<and> current_dir (run_effects None [] busy_session (disconnect_hpc None busy_session)) = ''~''
   \<and> available_modules (run_effects None [] busy_session (disconnect_hpc None busy_session))
       = [''gcc/12.2'', ''python/3.9'']
   \<and> available_modules (run_effects None [] busy_session (disconnect_hpc None busy_session)) \<noteq> []"
  by (simp add: busy_session_fields disconnect_connected [of busy_session 0] notify_def
      run_effects_def reset_selection_def auto_close_editor_def update_slurm_queue_def Let_def)

theorem disconnect_resets_witness:
  "ssh_client busy_session = Some 0 \<and> hpc_connected busy_session
   \<and> current_dir busy_session \<noteq> ''~''
   \<and> hpc_refresh_trigger (run_effects None [] busy_session (disconnect_hpc None busy_session)) = 1
   \<and> job_queue_df (run_effects None [] busy_session (disconnect_hpc None busy_session)) = []
   \<and> selected_hpc_item (run_effects None [] busy_session (disconnect_hpc None busy_session)) = None
   \<and> selected_modules (run_effects None [] busy_session (disconnect_hpc None busy_session))
       = [''gcc/12.2'']
   \<and> ssh_client initial_session = None
   \<and> notifications (run_effects None [] initial_session (disconnect_hpc None initial_session))
       = [Note Warning ''Not connected to HPC'']"
proof -
  have h: "ssh_client busy_session = Some 0 \<and> hpc_connected busy_session"
    and d: "current_dir busy_session \<noteq> ''~''" and n: "ssh_client initial_session = None"
    by (simp_all add: busy_session_fields)
  from disconnect_resets [of busy_session 0 None "[]" None] h d
  have 1: "hpc_refresh_trigger (run_effects None [] busy_session (disconnect_hpc None busy_session)) = 1
     \<and> job_queue_df (run_effects None [] busy_session (disconnect_hpc None busy_session)) = []
     \<and> selected_hpc_item (run_effects None [] busy_session (disconnect_hpc None busy_session)) = None
     \<and> selected_modules (run_effects None [] busy_session (disconnect_hpc None busy_session))
         = [''gcc/12.2'']"
    by (simp add: busy_session_fields)
  from disconnect_resets [of initial_session 0 None "[]" None] n
  have 2: "notifications (run_effects None [] initial_session (disconnect_hpc None initial_session))
       = [Note Warning ''Not connected to HPC'']"
    by (simp add: busy_session_fields)
  from h d n 1 2 show ?thesis by blast
qed


subsection \<open>Loading a file\<close>

lemma head_lines_newlines:
  "head_lines n (replicate n (CHR 0x0A) @ rest) = replicate n (CHR 0x0A)"
  by (induction n) simp_all

lemma take_replicate_all: "n \<le> m \<Longrightarrow> take m (replicate n x) = replicate n x"
  by simp

lemma big_file_length: "length big_file = 5050000"
  by (simp add: big_file_def)

lemma big_file_head: "take 5000000 (head_lines 50000 big_file) = replicate 50000 (CHR 0x0A)"
  unfolding big_file_def head_lines_newlines by (rule take_replicate_all) simp

lemma show_size: "show_nat 5050000 = ''5050000''"
  by (simp add: show_nat.simps)

lemma stat_output_parsed: "py_int (strip (''5050000'' @ [CHR 0x0A])) = Some 5050000"
  by code_simp

lemma big_path: "path_join ''/home/u'' ''big.log'' = ''/home/u/big.log''"
  by code_simp

lemma commands_differ:
  "head_command p \<noteq> stat_command p" "cat_command p \<noteq> stat_command p"
  "cat_command p \<noteq> head_command p"
  by (simp_all add: head_command_def stat_command_def cat_command_def)

lemma handle_file_content_large:
  assumes "ssh_client s = Some c"
    and "rem (stat_command (path_join (current_dir s) (entry_name item))) = Inr st"
    and "py_int (strip (stdout st)) = Some n" and "n > int MAX_DISPLAY_SIZE"
    and "rem (head_command (path_join (current_dir s) (entry_name item))) = Inr r"
    and "length (stdout r) < MAX_DISPLAY_SIZE"
  shows "handle_file_content rem s item =
           (True, (notify (Note Warning ''Large file detected - showing first portion only'') s)
                    \<lparr>file_content := stdout r\<rparr>)"
  using assms by (simp add: handle_file_content_def exec_command_def notify_def Let_def)

lemma handle_file_content_small:
  assumes "ssh_client s = Some c"
    and "rem (stat_command (path_join (current_dir s) (entry_name item))) = Inr st"
    and "py_int (strip (stdout st)) = Some n" and "n \<le> int MAX_DISPLAY_SIZE"
    and "rem (cat_command (path_join (current_dir s) (entry_name item))) = Inr r"
  shows "handle_file_content rem s item = (True, s\<lparr>file_content := stdout r\<rparr>)"
  using assms by (simp add: handle_file_content_def exec_command_def Let_def)

lemma handle_file_content_bounded:
  assumes "handle_file_content rem s item = (True, s')"
  shows "length (file_content s') \<le> MAX_DISPLAY_SIZE + length TRUNCATE_MESSAGE
         \<or> (\<exists>r. rem (cat_command (path_join (current_dir s) (entry_name item))) = Inr r
                 \<and> file_content s' = stdout r)"
  using assms
  by (auto simp: handle_file_content_def exec_command_def notify_def Let_def
      split: sum.splits option.splits if_splits)

text \<open>
  C3 at the failing input. The remote file /home/u/big.log holds 50000 empty lines
  followed by 5000000 letters, 5050000 bytes, more than the threshold. Loading it
  succeeds with the 50000 line feeds as content: the content is not the file, and it
  does not end with the truncation marker.
\<close>

theorem big_file_loaded_without_marker:
  "length big_file = 5050000
   \<and> handle_file_content (file_host ''/home/u/big.log'' big_file) connected_session big_entry
       = (True, (notify (Note Warning ''Large file detected - showing first portion only'')
                   connected_session)\<lparr>file_content := replicate 50000 (CHR 0x0A)\<rparr>)
   \<and> replicate 50000 (CHR 0x0A) \<noteq> big_file
   \<and> \<not> suffix TRUNCATE_MESSAGE (replicate 50000 (CHR 0x0A))"
proof -
  let ?host = "file_host ''/home/u/big.log'' big_file"
  have c: "ssh_client connected_session = Some 0"
    and p: "path_join (current_dir connected_session) (entry_name big_entry) = ''/home/u/big.log''"
    by (simp_all add: connected_session_def initial_session_def big_entry_def big_path)
  have st: "?host (stat_command ''/home/u/big.log'')
            = Inr \<lparr>stdout = ''5050000'' @ [CHR 0x0A], stderr = [], exit_status = 0\<rparr>"
    by (simp add: file_host_def big_file_length show_size)
  have hd: "?host (head_command ''/home/u/big.log'')
            = Inr \<lparr>stdout = replicate 50000 (CHR 0x0A), stderr = [], exit_status = 0\<rparr>"
    by (simp only: file_host_def commands_differ if_False if_True big_file_head refl)
  have sz: "(5050000::int) > int MAX_DISPLAY_SIZE" by (simp add: MAX_DISPLAY_SIZE_def)
  have len: "length (replicate 50000 (CHR 0x0A)) < MAX_DISPLAY_SIZE"
    by (simp add: MAX_DISPLAY_SIZE_def)
  have load: "handle_file_content ?host connected_session big_entry
       = (True, (notify (Note Warning ''Large file detected - showing first portion only'')
                   connected_session)\<lparr>file_content := replicate 50000 (CHR 0x0A)\<rparr>)"
    using handle_file_content_large [of connected_session 0 ?host big_entry
        "\<lparr>stdout = ''5050000'' @ [CHR 0x0A], stderr = [], exit_status = 0\<rparr>" 5050000
        "\<lparr>stdout = replicate 50000 (CHR 0x0A), stderr = [], exit_status = 0\<rparr>"]
      c st hd sz len stat_output_parsed
    by (simp only: p exec_result.simps)
  have ne: "replicate 50000 (CHR 0x0A) \<noteq> big_file"
  proof
    assume "replicate 50000 (CHR 0x0A) = big_file"
    then have "length (replicate 50000 (CHR 0x0A)) = length big_file" by (rule arg_cong)
    then show False by (simp add: big_file_length)
  qed
  have nl: "CHR '']'' \<notin> set (replicate 50000 (CHR 0x0A))" by simp
  have ns: "\<not> suffix TRUNCATE_MESSAGE (replicate 50000 (CHR 0x0A))"
  proof
    assume "suffix TRUNCATE_MESSAGE (replicate 50000 (CHR 0x0A))"
    then have "set TRUNCATE_MESSAGE \<subseteq> set (replicate 50000 (CHR 0x0A))" by (rule set_mono_suffix)
    moreover have "CHR '']'' \<in> set TRUNCATE_MESSAGE" by (simp add: TRUNCATE_MESSAGE_def)
    ultimately show False using nl by blast
  qed
  from big_file_length load ne ns show ?thesis by blast
qed


subsection \<open>Command lines sent to the remote shell\<close>

text \<open>
  C1 at the failing input. A listed file may be named \<open>x'; touch pwned; echo '\<close>. The
  command line that delete_selected_item builds for it is split by the shell into three
  commands, where quoting the path with shlex.quote, as handle_job_submission does for
  its values, gives one \<open>rm\<close> with the path as its only argument. A name without a
  single quote, such as the \<open>a; rm -rf /\<close> of the specification, stays one argument. A
  console command that holds single quotes leaves the argument of \<open>bash -c\<close> in the same
  way.
\<close>

theorem quote_in_name_splits_command:
  "parse_ls_line (''-rw-r--r-- 1 u g 0 Jan  1 12:00 x'; touch pwned; echo '' @ [CHR 0x27])
     = Some quoting_entry
   \<and> delete_command ''/home/u'' quoting_entry
       = ''rm '/home/u/x'; touch pwned; echo '' @ [CHR 0x27, CHR 0x27]
   \<and> sh_commands (delete_command ''/home/u'' quoting_entry)
       = Some [[''rm'', ''/home/u/x''], [''touch'', ''pwned''], [''echo'', []]]
   \<and> sh_commands (''rm '' @ shlex_quote (path_join ''/home/u'' (entry_name quoting_entry)))
       = Some [[''rm'', ''/home/u/x'; touch pwned; echo '' @ [CHR 0x27]]]
   \<and> sh_commands (delete_command ''/home/u'' semicolon_entry)
       = Some [[''rm'', ''/home/u/a; rm -rf /'']]
   \<and> sh_commands (console_command ''/home/u'' (''echo a'; touch pwned; echo 'b''))
       = Some [[''cd'', ''/home/u''], [''bash'', ''-l'', ''-c'', ''echo a''],
               [''touch'', ''pwned''], [''echo'', ''b'']]"
  by code_simp

subsection \<open>Verifying a user\<close>



















end
